theory Spec2Isabelle
  imports Complex_Main
begin

section \<open>JavaScript values used by the colour store\<close>

text \<open>
  The front end is TypeScript. Three kinds of JavaScript value occur in the code that is
  verified here.

  \<^item> Strings are lists of code units. A \<^typ>\<open>char\<close> stands for one code unit below 256,
    so \<open>slice\<close> and \<open>length\<close> count what JavaScript counts on such texts. The
    codec is given a second time on lists of arbitrary code units, for the statement
    about every input string.
  \<^item> Colour channels are the numbers that \<open>parseInt\<close> returns or that the backend sends
    in an RGB tuple: an integer, or \<open>NaN\<close> when \<open>parseInt\<close> finds no digit.
  \<^item> The contrast ratio reaches the front end as a JSON number, which is finite. Finite
    doubles are ordered as the reals they denote, and the thresholds 3, 4.5 and 7 are
    doubles, so the ratio is a \<^typ>\<open>real\<close> and \<open><\<close> is the comparison of the code.
\<close>

datatype jsnum = NaN | Num int

subsection \<open>Characters\<close>

definition isHexDigit :: "char \<Rightarrow> bool" where
  "isHexDigit c =
     (let n = (of_char c :: nat)
      in (48 \<le> n \<and> n \<le> 57) \<or> (97 \<le> n \<and> n \<le> 102) \<or> (65 \<le> n \<and> n \<le> 70))"

definition hexDigitValue :: "char \<Rightarrow> nat" where
  "hexDigitValue c =
     (let n = (of_char c :: nat)
      in if 48 \<le> n \<and> n \<le> 57 then n - 48
         else if 97 \<le> n \<and> n \<le> 102 then n - 87
         else n - 55)"

text \<open>The white space that \<open>parseInt\<close> skips, among the code units below 256:
  TAB, LF, VT, FF, CR, SP and NBSP.\<close>

definition isWhiteSpace :: "char \<Rightarrow> bool" where
  "isWhiteSpace c =
     (let n = (of_char c :: nat)
      in (9 \<le> n \<and> n \<le> 13) \<or> n = 32 \<or> n = 160)"

text \<open>The digit characters of \<open>Number.prototype.toString\<close>: \<open>0\<close> to \<open>9\<close>, then
  lower-case letters.\<close>

definition digitChar :: "nat \<Rightarrow> char" where
  "digitChar v = (if v < 10 then char_of (48 + v) else char_of (87 + v))"

text \<open>\<open>toUpperCase\<close> on the texts it is applied to in this code, the output of
  \<open>toString(16)\<close> and hexadecimal colour strings: the letters \<open>a\<close> to \<open>z\<close> move to
  \<open>A\<close> to \<open>Z\<close>, everything else stays.\<close>

definition toUpperChar :: "char \<Rightarrow> char" where
  "toUpperChar c =
     (let n = (of_char c :: nat)
      in if 97 \<le> n \<and> n \<le> 122 then char_of (n - 32) else c)"

definition toUpperCase :: "string \<Rightarrow> string" where
  "toUpperCase s = map toUpperChar s"

subsection \<open>String methods\<close>

text \<open>\<open>s.slice(a, b)\<close> for \<open>0 \<le> a \<le> b\<close>: both ends are cut down to the length of
  \<open>s\<close>.\<close>

definition slice :: "nat \<Rightarrow> nat \<Rightarrow> string \<Rightarrow> string" where
  "slice a b s = take (b - a) (drop a s)"

text \<open>\<open>s.padStart(n, c)\<close> with a one-character filler.\<close>

definition padStart :: "nat \<Rightarrow> char \<Rightarrow> string \<Rightarrow> string" where
  "padStart n c s = replicate (n - length s) c @ s"

subsection \<open>Numbers and strings\<close>

function digits :: "nat \<Rightarrow> nat \<Rightarrow> string" where
  "digits b n =
     (if b < 2 \<or> n < b then [digitChar n]
      else digits b (n div b) @ [digitChar (n mod b)])"
  by pat_completeness auto
termination
  by (relation "measure snd") auto

declare digits.simps [simp del]

text \<open>\<open>x.toString(radix)\<close>, also the conversion of a number in a template literal
  (radix 10). The code uses the radices 10 and 16 only, on channels: bytes from the
  backend, or what \<open>parseInt\<close> reads from two characters. The text is JavaScript's for
  every integer below \<open>10^21\<close>; from there on JavaScript prints an exponent, and a
  fraction has no value in \<^typ>\<open>jsnum\<close>. Neither occurs among the channels.\<close>

definition numberToString :: "nat \<Rightarrow> jsnum \<Rightarrow> string" where
  "numberToString radix x =
     (case x of
        NaN \<Rightarrow> ''NaN''
      | Num i \<Rightarrow> if i < 0 then CHR ''-'' # digits radix (nat (- i))
                 else digits radix (nat i))"

text \<open>
  \<open>parseInt(s, 16)\<close>: skip leading white space, read a sign, skip a \<open>0x\<close> or \<open>0X\<close>
  prefix, read hexadecimal digits up to the first other character. No digit gives
  \<open>NaN\<close>. (The code calls it on slices of at most two characters, where the value
  is exact.)
\<close>

definition parseInt16 :: "string \<Rightarrow> jsnum" where
  "parseInt16 s =
     (let S1 = dropWhile isWhiteSpace s;
          sign = (if take 1 S1 = ''-'' then - 1 else 1 :: int);
          S2 = (if take 1 S1 = ''+'' \<or> take 1 S1 = ''-'' then drop 1 S1 else S1);
          S3 = (if take 2 S2 = ''0x'' \<or> take 2 S2 = ''0X'' then drop 2 S2 else S2);
          Z = takeWhile isHexDigit S3
      in if Z = [] then NaN
         else Num (sign * int (foldl (\<lambda>a c. 16 * a + hexDigitValue c) 0 Z)))"

section \<open>utils.ts: the colour codec\<close>

text \<open>The three constants \<open>r\<close>, \<open>g\<close>, \<open>b\<close> of \<open>hexToRgb\<close>.\<close>

definition hexToRgb_channels :: "string \<Rightarrow> jsnum \<times> jsnum \<times> jsnum" where
  "hexToRgb_channels hex =
     (parseInt16 (slice 1 3 hex), parseInt16 (slice 3 5 hex), parseInt16 (slice 5 7 hex))"

text \<open>The template literal \<open>`${r}, ${g}, ${b}`\<close>.\<close>

definition rgbText :: "jsnum \<times> jsnum \<times> jsnum \<Rightarrow> string" where
  "rgbText c =
     (case c of (r, g, b) \<Rightarrow>
        numberToString 10 r @ '', '' @ numberToString 10 g @ '', '' @ numberToString 10 b)"

definition hexToRgb :: "string \<Rightarrow> string" where
  "hexToRgb hex = rgbText (hexToRgb_channels hex)"

definition rgbToHex :: "jsnum \<Rightarrow> jsnum \<Rightarrow> jsnum \<Rightarrow> string" where
  "rgbToHex r g b =
     ''#'' @ toUpperCase (padStart 2 (CHR ''0'') (numberToString 16 r))
           @ toUpperCase (padStart 2 (CHR ''0'') (numberToString 16 g))
           @ toUpperCase (padStart 2 (CHR ''0'') (numberToString 16 b))"

section \<open>utils.ts on strings of arbitrary code units\<close>

text \<open>
  A JavaScript string is a sequence of 16-bit code units. Here a code unit is a number
  (below 65536 in JavaScript; the functions are defined on every number), and
  \<open>hexToRgb\<close> is written once more, step by step as above, on lists of numbers. The
  white space that \<open>parseInt\<close> skips is then the whole of ECMAScript's: TAB, LF, VT, FF,
  CR, SP, NBSP, U+1680, U+2000 to U+200A, U+2028, U+2029, U+202F, U+205F, U+3000 and
  U+FEFF, each of them one code unit. The returned text consists of ASCII characters and
  stays a \<^typ>\<open>string\<close>. \<open>units\<close> reads a string of characters as code units.
\<close>

type_synonym utf16 = "nat list"

definition units :: "string \<Rightarrow> utf16" where
  "units s = map of_char s"

definition isHexDigit_unit :: "nat \<Rightarrow> bool" where
  "isHexDigit_unit n = ((48 \<le> n \<and> n \<le> 57) \<or> (97 \<le> n \<and> n \<le> 102) \<or> (65 \<le> n \<and> n \<le> 70))"

definition hexDigitValue_unit :: "nat \<Rightarrow> nat" where
  "hexDigitValue_unit n =
     (if 48 \<le> n \<and> n \<le> 57 then n - 48
      else if 97 \<le> n \<and> n \<le> 102 then n - 87
      else n - 55)"

definition isWhiteSpace_unit :: "nat \<Rightarrow> bool" where
  "isWhiteSpace_unit n =
     ((9 \<le> n \<and> n \<le> 13) \<or> n = 32 \<or> n = 160 \<or> n = 0x1680
      \<or> (0x2000 \<le> n \<and> n \<le> 0x200A) \<or> n = 0x2028 \<or> n = 0x2029 \<or> n = 0x202F
      \<or> n = 0x205F \<or> n = 0x3000 \<or> n = 0xFEFF)"

definition parseInt16_utf16 :: "utf16 \<Rightarrow> jsnum" where
  "parseInt16_utf16 s =
     (let S1 = dropWhile isWhiteSpace_unit s;
          sign = (if take 1 S1 = units ''-'' then - 1 else 1 :: int);
          S2 = (if take 1 S1 = units ''+'' \<or> take 1 S1 = units ''-'' then drop 1 S1 else S1);
          S3 = (if take 2 S2 = units ''0x'' \<or> take 2 S2 = units ''0X'' then drop 2 S2 else S2);
          Z = takeWhile isHexDigit_unit S3
      in if Z = [] then NaN
         else Num (sign * int (foldl (\<lambda>a c. 16 * a + hexDigitValue_unit c) 0 Z)))"

definition slice_utf16 :: "nat \<Rightarrow> nat \<Rightarrow> utf16 \<Rightarrow> utf16" where
  "slice_utf16 a b s = take (b - a) (drop a s)"

definition hexToRgb_utf16 :: "utf16 \<Rightarrow> string" where
  "hexToRgb_utf16 h =
     rgbText (parseInt16_utf16 (slice_utf16 1 3 h), parseInt16_utf16 (slice_utf16 3 5 h),
              parseInt16_utf16 (slice_utf16 5 7 h))"

section \<open>Asynchronous calls\<close>

text \<open>
  An \<open>await\<close> ends in one of two ways. The code between two awaits runs without
  interruption, so each asynchronous method is a sequence of atomic parts: the part up
  to the \<open>await\<close>, and the part that runs when the promise is settled.
\<close>

datatype 'a settled = Resolved 'a | Rejected

section \<open>store.ts with hexadecimal payloads: ColorStore and ColorPickerStore\<close>

record ColorResult =
  foreground :: "(jsnum \<times> jsnum \<times> jsnum) option"
  background :: "(jsnum \<times> jsnum \<times> jsnum) option"
  continue_mode :: bool

record ColorStore =
  foreground :: "string option"
  background :: "string option"
  continue_mode :: bool

record ColorPickerStore =
  isPicking :: bool
  resultVisible :: bool
  foreground :: string
  background :: string
  foregroundRgb :: string
  backgroundRgb :: string
  copiedVisible :: bool

definition colorPickerStore :: ColorPickerStore where
  "colorPickerStore =
     \<lparr> ColorPickerStore.isPicking = False, ColorPickerStore.resultVisible = False,
       ColorPickerStore.foreground = '''', ColorPickerStore.background = '''',
       ColorPickerStore.foregroundRgb = '''', ColorPickerStore.backgroundRgb = '''',
       ColorPickerStore.copiedVisible = False \<rparr>"

text \<open>\<open>pickColor\<close>: the part before the \<open>await\<close>, the part after it (\<open>try\<close>,
  \<open>catch\<close>, \<open>finally\<close>), and the whole call. The result of \<open>invoke\<close> is not read; a
  rejection is logged.\<close>

definition pickColor_enter :: "ColorPickerStore \<Rightarrow> ColorPickerStore" where
  "pickColor_enter this = this\<lparr> ColorPickerStore.isPicking := True \<rparr>"

definition pickColor_settle ::
  "ColorResult settled \<Rightarrow> ColorPickerStore \<Rightarrow> ColorPickerStore" where
  "pickColor_settle r this =
     (let t = (case r of Resolved c \<Rightarrow> this | Rejected \<Rightarrow> this)
      in t\<lparr> ColorPickerStore.isPicking := False \<rparr>)"

definition pickColor ::
  "bool \<Rightarrow> ColorResult settled \<Rightarrow> ColorPickerStore \<Rightarrow> ColorPickerStore" where
  "pickColor fg r this = pickColor_settle r (pickColor_enter this)"

text \<open>\<open>copyHex\<close>: the part that runs when \<open>clipboard.writeText\<close> is settled, and the
  timer callback after 1500 ms.\<close>

definition copyHex_settle :: "unit settled \<Rightarrow> ColorPickerStore \<Rightarrow> ColorPickerStore" where
  "copyHex_settle r this =
     (case r of
        Resolved u \<Rightarrow> this\<lparr> ColorPickerStore.copiedVisible := True \<rparr>
      | Rejected \<Rightarrow> this)"

definition copyHex_timeout :: "ColorPickerStore \<Rightarrow> ColorPickerStore" where
  "copyHex_timeout this = this\<lparr> ColorPickerStore.copiedVisible := False \<rparr>"

text \<open>\<open>if (store.foreground)\<close> on a \<open>string | null\<close>: \<open>null\<close> and the empty string
  count as false.\<close>

definition truthy :: "string option \<Rightarrow> bool" where
  "truthy v = (case v of None \<Rightarrow> False | Some s \<Rightarrow> s \<noteq> [])"

definition updateFromTauriStore :: "ColorStore \<Rightarrow> ColorPickerStore \<Rightarrow> ColorPickerStore" where
  "updateFromTauriStore store this =
     (let t1 = (if truthy (ColorStore.foreground store) then
                  this\<lparr> ColorPickerStore.foreground := the (ColorStore.foreground store),
                        ColorPickerStore.foregroundRgb :=
                          hexToRgb (the (ColorStore.foreground store)),
                        ColorPickerStore.resultVisible := True \<rparr>
                else this);
          t2 = (if truthy (ColorStore.background store) then
                  t1\<lparr> ColorPickerStore.background := the (ColorStore.background store),
                      ColorPickerStore.backgroundRgb :=
                        hexToRgb (the (ColorStore.background store)),
                      ColorPickerStore.resultVisible := True \<rparr>
                else t1)
      in t2)"

section \<open>store.ts with RGB payloads\<close>

text \<open>The ColorStore of this version holds two RGB tuples, never \<open>null\<close>. The
  ColorPickerStore, \<open>pickColor\<close> and \<open>copyHex\<close> are those of the previous section. The
  hexadecimal text is built by the expression that is the body of \<open>rgbToHex\<close>.\<close>

record ColorStore_rgb =
  foreground_rgb :: "jsnum \<times> jsnum \<times> jsnum"
  background_rgb :: "jsnum \<times> jsnum \<times> jsnum"
  continue_mode :: bool

definition updateFromTauriStore_rgb ::
  "ColorStore_rgb \<Rightarrow> ColorPickerStore \<Rightarrow> ColorPickerStore" where
  "updateFromTauriStore_rgb store this =
     (case ColorStore_rgb.foreground_rgb store of (fr, fg, fb) \<Rightarrow>
      case ColorStore_rgb.background_rgb store of (br, bg, bb) \<Rightarrow>
        this\<lparr> ColorPickerStore.foreground := rgbToHex fr fg fb,
              ColorPickerStore.foregroundRgb := rgbText (fr, fg, fb),
              ColorPickerStore.background := rgbToHex br bg bb,
              ColorPickerStore.backgroundRgb := rgbText (br, bg, bb),
              ColorPickerStore.resultVisible := True \<rparr>)"

section \<open>Sessions of the ColorPickerStore\<close>

text \<open>What can happen to the store after start-up: a call of \<open>pickColor\<close> begins or
  is settled, a clipboard write of \<open>copyHex\<close> is settled, the timer of \<open>copyHex\<close>
  fires, the backend pushes a payload (\<open>get_store\<close> at start-up or the
  \<open>store-updated\<close> event). The payload type and \<open>updateFromTauriStore\<close> are those of
  either version.\<close>

datatype 'p event =
    PickColorCalled bool
  | PickColorSettled "ColorResult settled"
  | CopyHexSettled "unit settled"
  | CopyHexTimeout
  | StoreUpdated 'p

fun step ::
  "('p \<Rightarrow> ColorPickerStore \<Rightarrow> ColorPickerStore) \<Rightarrow> 'p event \<Rightarrow> ColorPickerStore
     \<Rightarrow> ColorPickerStore" where
  "step upd (PickColorCalled fg) this = pickColor_enter this"
| "step upd (PickColorSettled r) this = pickColor_settle r this"
| "step upd (CopyHexSettled r) this = copyHex_settle r this"
| "step upd CopyHexTimeout this = copyHex_timeout this"
| "step upd (StoreUpdated p) this = upd p this"

definition run ::
  "('p \<Rightarrow> ColorPickerStore \<Rightarrow> ColorPickerStore) \<Rightarrow> 'p event list \<Rightarrow> ColorPickerStore
     \<Rightarrow> ColorPickerStore" where
  "run upd evs this = foldl (\<lambda>t e. step upd e t) this evs"

section \<open>main.ts with the colorPicker store\<close>

text \<open>The oldest version keeps one colour. \<open>pickColor\<close> reads the result of \<open>invoke\<close>
  itself; \<open>color && color.foreground\<close> tests both the result and its tuple against
  \<open>null\<close>.\<close>

record ColorResult_main =
  foreground :: "(jsnum \<times> jsnum \<times> jsnum) option"

record ColorPickerStore_main =
  isPicking :: bool
  resultVisible :: bool
  hex :: string
  rgb :: string
  backgroundColor :: string
  copiedVisible :: bool

definition colorPicker :: ColorPickerStore_main where
  "colorPicker =
     \<lparr> ColorPickerStore_main.isPicking = False, ColorPickerStore_main.resultVisible = False,
       ColorPickerStore_main.hex = '''', ColorPickerStore_main.rgb = '''',
       ColorPickerStore_main.backgroundColor = '''',
       ColorPickerStore_main.copiedVisible = False \<rparr>"

definition pickColor_main_enter :: "ColorPickerStore_main \<Rightarrow> ColorPickerStore_main" where
  "pickColor_main_enter this = this\<lparr> ColorPickerStore_main.isPicking := True \<rparr>"

definition pickColor_main_settle ::
  "ColorResult_main option settled \<Rightarrow> ColorPickerStore_main \<Rightarrow> ColorPickerStore_main" where
  "pickColor_main_settle res this =
     (let t = (case res of
                 Resolved color \<Rightarrow>
                   (case color of
                      None \<Rightarrow> this
                    | Some c \<Rightarrow>
                        (case ColorResult_main.foreground c of
                           None \<Rightarrow> this
                         | Some (r, g, b) \<Rightarrow>
                             this\<lparr> ColorPickerStore_main.hex := rgbToHex r g b,
                                   ColorPickerStore_main.rgb := rgbText (r, g, b),
                                   ColorPickerStore_main.backgroundColor := rgbToHex r g b,
                                   ColorPickerStore_main.resultVisible := True \<rparr>))
               | Rejected \<Rightarrow> this)
      in t\<lparr> ColorPickerStore_main.isPicking := False \<rparr>)"

definition pickColor_main ::
  "ColorResult_main option settled \<Rightarrow> ColorPickerStore_main \<Rightarrow> ColorPickerStore_main" where
  "pickColor_main res this = pickColor_main_settle res (pickColor_main_enter this)"

section \<open>store.ts with WCAG levels: BackendStore and UIStore\<close>

record BackendStore =
  platform :: string
  foreground_rgb :: "jsnum \<times> jsnum \<times> jsnum"
  foreground_hex :: string
  foreground_is_dark :: bool
  background_rgb :: "jsnum \<times> jsnum \<times> jsnum"
  background_hex :: string
  background_is_dark :: bool
  contrast_ratio_rounded :: real
  continue_mode :: bool

record UIStore =
  platform :: string
  isPicking :: bool
  foregroundRgb :: string
  foregroundHex :: string
  foregroundIsDark :: bool
  backgroundRgb :: string
  backgroundHex :: string
  backgroundIsDark :: bool
  contrastRatio :: string
  currentICCProfile :: string
  level143Regular :: bool
  level143Large :: bool
  level146Regular :: bool
  level146Large :: bool
  level1411 :: bool

definition UIStore_init :: UIStore where
  "UIStore_init =
     \<lparr> platform = ''unknown'', isPicking = False,
       foregroundRgb = '''', foregroundHex = '''', foregroundIsDark = True,
       backgroundRgb = '''', backgroundHex = '''', backgroundIsDark = False,
       contrastRatio = ''xxx:1'', currentICCProfile = ''Auto'',
       level143Regular = True, level143Large = True, level146Regular = True,
       level146Large = True, level1411 = True \<rparr>"

text \<open>
  \<open>updateFromTauriStore\<close> of the UIStore. The text of the ratio in
  \<open>`${store.contrast_ratio_rounded}:1`\<close> is JavaScript's shortest decimal text of a
  double; it is the parameter \<open>show_ratio\<close>. The statements follow the source in
  order: the five levels are set, then the three tests clear them.
\<close>

definition updateFromTauriStore_ui ::
  "(real \<Rightarrow> string) \<Rightarrow> BackendStore \<Rightarrow> UIStore \<Rightarrow> UIStore" where
  "updateFromTauriStore_ui show_ratio store this =
     (let t1 = this\<lparr> platform := BackendStore.platform store \<rparr>;
          t2 = t1\<lparr> foregroundRgb := rgbText (BackendStore.foreground_rgb store) \<rparr>;
          t3 = t2\<lparr> foregroundHex := foreground_hex store \<rparr>;
          t4 = t3\<lparr> foregroundIsDark := foreground_is_dark store \<rparr>;
          t5 = t4\<lparr> backgroundRgb := rgbText (BackendStore.background_rgb store) \<rparr>;
          t6 = t5\<lparr> backgroundHex := background_hex store \<rparr>;
          t7 = t6\<lparr> backgroundIsDark := background_is_dark store \<rparr>;
          t8 = t7\<lparr> contrastRatio := show_ratio (contrast_ratio_rounded store) @ '':1'' \<rparr>;
          t9 = t8\<lparr> level143Regular := True, level143Large := True,
                     level146Regular := True, level146Large := True, level1411 := True \<rparr>;
          t10 = (if contrast_ratio_rounded store < 7
                 then t9\<lparr> level146Regular := False \<rparr> else t9);
          t11 = (if contrast_ratio_rounded store < 4.5
                 then t10\<lparr> level143Regular := False, level146Large := False \<rparr> else t10);
          t12 = (if contrast_ratio_rounded store < 3
                 then t11\<lparr> level143Large := False, level1411 := False \<rparr> else t11)
      in t12)"

text \<open>The five WCAG levels of a store, in the order of the interface:
  1.4.3 regular, 1.4.3 large, 1.4.6 regular, 1.4.6 large, 1.4.11.\<close>

definition wcagLevels :: "UIStore \<Rightarrow> bool \<times> bool \<times> bool \<times> bool \<times> bool" where
  "wcagLevels ui =
     (level143Regular ui, level143Large ui, level146Regular ui, level146Large ui,
      level1411 ui)"

text \<open>The specification's direct form: each level is \<open>ratio \<ge> threshold\<close>.\<close>

definition wcagFlags_direct :: "real \<Rightarrow> bool \<times> bool \<times> bool \<times> bool \<times> bool" where
  "wcagFlags_direct ratio = (ratio \<ge> 4.5, ratio \<ge> 3, ratio \<ge> 7, ratio \<ge> 4.5, ratio \<ge> 3)"

text \<open>\<open>pickColor\<close> of the UIStore, in the same two parts.\<close>

definition pickColor_ui_enter :: "UIStore \<Rightarrow> UIStore" where
  "pickColor_ui_enter this = this\<lparr> UIStore.isPicking := True \<rparr>"

definition pickColor_ui_settle :: "unit settled \<Rightarrow> UIStore \<Rightarrow> UIStore" where
  "pickColor_ui_settle r this =
     (let t = (case r of Resolved u \<Rightarrow> this | Rejected \<Rightarrow> this)
      in t\<lparr> UIStore.isPicking := False \<rparr>)"

definition pickColor_ui :: "bool \<Rightarrow> unit settled \<Rightarrow> UIStore \<Rightarrow> UIStore" where
  "pickColor_ui fg r this = pickColor_ui_settle r (pickColor_ui_enter this)"

section \<open>Vocabulary of the properties\<close>

text \<open>A valid colour string: seven characters, \<open>#\<close> and six hexadecimal digits of
  either case.\<close>

definition valid_hex :: "string \<Rightarrow> bool" where
  "valid_hex h = (length h = 7 \<and> take 1 h = ''#'' \<and> list_all isHexDigit (drop 1 h))"

text \<open>The outcome of a call of \<open>hexToRgb\<close>, with the error of the specification as the
  other branch. The function has no \<open>throw\<close>, and \<open>slice\<close>, \<open>parseInt\<close> and a template
  literal of numbers do not throw on a string: every call returns.\<close>

datatype error = InvalidFormat

definition hexToRgb_result :: "string \<Rightarrow> error + string" where
  "hexToRgb_result h = Inr (hexToRgb h)"

definition hexToRgb_utf16_result :: "utf16 \<Rightarrow> error + string" where
  "hexToRgb_utf16_result h = Inr (hexToRgb_utf16 h)"

text \<open>What \<open>parseInt\<close> can read from two characters: no number, or an integer from
  \<open>-f\<close> to \<open>ff\<close>.\<close>

definition channelRange :: "jsnum \<Rightarrow> bool" where
  "channelRange x = (case x of NaN \<Rightarrow> True | Num i \<Rightarrow> - 15 \<le> i \<and> i \<le> 255)"

text \<open>A channel that is a byte.\<close>

definition isByte :: "jsnum \<Rightarrow> bool" where
  "isByte x = (case x of NaN \<Rightarrow> False | Num i \<Rightarrow> 0 \<le> i \<and> i \<le> 255)"

text \<open>Decimal digits and the number that a text of decimal digits denotes, to read
  the text \<open>r, g, b\<close> back.\<close>

definition isDecDigit :: "char \<Rightarrow> bool" where
  "isDecDigit c = (let n = (of_char c :: nat) in 48 \<le> n \<and> n \<le> 57)"

definition decValue :: "string \<Rightarrow> nat" where
  "decValue s = foldl (\<lambda>a c. 10 * a + (of_char c - 48)) 0 s"


text \<open>The sample that a result of \<open>pick_color\<close> carries for the requested role, and the
  value that the store displays for a role.\<close>

definition sample_main :: "ColorResult_main option \<Rightarrow> (jsnum \<times> jsnum \<times> jsnum) option" where
  "sample_main color = (case color of None \<Rightarrow> None | Some c \<Rightarrow> ColorResult_main.foreground c)"

definition sample :: "bool \<Rightarrow> ColorResult \<Rightarrow> (jsnum \<times> jsnum \<times> jsnum) option" where
  "sample fg c = (if fg then ColorResult.foreground c else ColorResult.background c)"

definition displayed :: "bool \<Rightarrow> ColorPickerStore \<Rightarrow> string \<times> string" where
  "displayed fg this =
     (if fg then (ColorPickerStore.foreground this, ColorPickerStore.foregroundRgb this)
      else (ColorPickerStore.background this, ColorPickerStore.backgroundRgb this))"

definition displayed_main :: "ColorPickerStore_main \<Rightarrow> string \<times> string \<times> string" where
  "displayed_main this =
     (ColorPickerStore_main.hex this, ColorPickerStore_main.rgb this,
      ColorPickerStore_main.backgroundColor this)"


text \<open>A payload of the backend, for the examples.\<close>

definition payload_example :: BackendStore where
  "payload_example =
     \<lparr> BackendStore.platform = ''macos'',
       BackendStore.foreground_rgb = (Num 255, Num 255, Num 255),
       foreground_hex = ''#FFFFFF'', foreground_is_dark = False,
       BackendStore.background_rgb = (Num 0, Num 0, Num 0),
       background_hex = ''#000000'', background_is_dark = True,
       contrast_ratio_rounded = 21, BackendStore.continue_mode = False \<rparr>"

section \<open>Properties of the colour codec\<close>

lemma hexDigitValue_less: "isHexDigit c \<Longrightarrow> hexDigitValue c < 16"
  by (auto simp: isHexDigit_def hexDigitValue_def Let_def)

lemma hexDigit_not_space: "isHexDigit c \<Longrightarrow> \<not> isWhiteSpace c"
  by (auto simp: isHexDigit_def isWhiteSpace_def Let_def)

lemma hexDigit_not_sign:
  "isHexDigit c \<Longrightarrow>
     c \<noteq> CHR ''+'' \<and> c \<noteq> CHR ''-'' \<and> c \<noteq> CHR ''x'' \<and> c \<noteq> CHR ''X''"
  by (auto simp: isHexDigit_def Let_def)

lemma parseInt16_two_digits:
  "isHexDigit a \<Longrightarrow> isHexDigit b \<Longrightarrow>
     parseInt16 [a, b] = Num (int (16 * hexDigitValue a + hexDigitValue b))"
  using hexDigit_not_space[of a] hexDigit_not_sign[of a] hexDigit_not_sign[of b]
  by (simp add: parseInt16_def Let_def)

lemma toUpperChar_digitChar:
  "isHexDigit c \<Longrightarrow> toUpperChar (digitChar (hexDigitValue c)) = toUpperChar c"
  unfolding isHexDigit_def hexDigitValue_def digitChar_def toUpperChar_def Let_def
  by (auto simp: of_char_of)

lemma digitChar_0: "digitChar 0 = CHR ''0''"
  by code_simp

lemma padStart_digits_16:
  "n < 256 \<Longrightarrow>
     padStart 2 (CHR ''0'') (digits 16 n) = [digitChar (n div 16), digitChar (n mod 16)]"
proof (cases "n < 16")
  case True
  then show ?thesis
    by (simp add: digits.simps[of 16 n] padStart_def digitChar_0)
next
  case False
  assume "n < 256"
  with False have "n div 16 < 16" by simp
  with False show ?thesis
    by (simp add: digits.simps[of 16 n] digits.simps[of 16 "n div 16"] padStart_def)
qed

lemma numberToString_16_nat: "numberToString 16 (Num (int n)) = digits 16 n"
  by (simp add: numberToString_def)

lemma channel_roundtrip:
  assumes a: "isHexDigit a" and b: "isHexDigit b"
  shows "toUpperCase (padStart 2 (CHR ''0'') (numberToString 16 (parseInt16 [a, b])))
           = [toUpperChar a, toUpperChar b]"
proof -
  define n where "n = 16 * hexDigitValue a + hexDigitValue b"
  have lt: "n < 256"
    using hexDigitValue_less[OF a] hexDigitValue_less[OF b] by (simp add: n_def)
  have d: "n div 16 = hexDigitValue a" "n mod 16 = hexDigitValue b"
    using hexDigitValue_less[OF b] by (simp_all add: n_def)
  have p: "parseInt16 [a, b] = Num (int n)"
    unfolding n_def by (rule parseInt16_two_digits[OF a b])
  have "padStart 2 (CHR ''0'') (numberToString 16 (parseInt16 [a, b]))
          = [digitChar (hexDigitValue a), digitChar (hexDigitValue b)]"
    unfolding p numberToString_16_nat padStart_digits_16[OF lt] d ..
  then show ?thesis
    by (simp add: toUpperCase_def toUpperChar_digitChar a b)
qed

lemma channel_isByte:
  assumes a: "isHexDigit a" and b: "isHexDigit b"
  shows "isByte (parseInt16 [a, b])"
  using hexDigitValue_less[OF a] hexDigitValue_less[OF b]
  by (simp add: parseInt16_two_digits[OF a b] isByte_def)

lemma length_7: "length (h::string) = 7 \<Longrightarrow> \<exists>a b c d e f g. h = [a, b, c, d, e, f, g]"
  by (auto simp: length_Suc_conv numeral_eq_Suc)

lemma toUpperChar_hash: "toUpperChar (CHR ''#'') = CHR ''#''"
  by (simp add: toUpperChar_def)

lemma toUpperCase_example: "toUpperCase ''#1a2B3c'' = ''#1A2B3C''"
  by code_simp

lemma hexToRgb_no_hash: "hexToRgb ''FF0000'' = ''240, 0, 0''"
  by code_simp

lemma hexDigitValue_unit_less: "isHexDigit_unit c \<Longrightarrow> hexDigitValue_unit c < 16"
  by (auto simp: isHexDigit_unit_def hexDigitValue_unit_def)

lemma hexval_fold:
  "list_all isHexDigit_unit Z \<Longrightarrow>
     foldl (\<lambda>a c. 16 * a + hexDigitValue_unit c) v Z < 16 ^ length Z * (v + 1)"
proof (induction Z arbitrary: v)
  case Nil
  then show ?case by simp
next
  case (Cons c Z)
  then have c: "hexDigitValue_unit c < 16" and Z: "list_all isHexDigit_unit Z"
    by (simp_all add: hexDigitValue_unit_less)
  have "foldl (\<lambda>a c. 16 * a + hexDigitValue_unit c) (16 * v + hexDigitValue_unit c) Z
          < 16 ^ length Z * (16 * v + hexDigitValue_unit c + 1)"
    using Cons.IH[OF Z] .
  also have "\<dots> \<le> 16 ^ length Z * (16 * (v + 1))"
    using c by (intro mult_le_mono2) simp
  finally show ?case by (simp add: algebra_simps)
qed

lemma takeWhile_all: "list_all P (takeWhile P xs)"
  by (induction xs) auto

lemma digits_value_bound:
  "length S \<le> k \<Longrightarrow>
     foldl (\<lambda>a c. 16 * a + hexDigitValue_unit c) 0 (takeWhile isHexDigit_unit S) < 16 ^ k"
proof -
  assume k: "length S \<le> k"
  have "foldl (\<lambda>a c. 16 * a + hexDigitValue_unit c) 0 (takeWhile isHexDigit_unit S)
          < 16 ^ length (takeWhile isHexDigit_unit S) * (0 + 1)"
    by (rule hexval_fold[OF takeWhile_all])
  also have "\<dots> \<le> 16 ^ k"
    using k length_takeWhile_le[of isHexDigit_unit S] by (simp add: power_increasing)
  finally show ?thesis .
qed

lemma parseInt16_utf16_range: "length s \<le> 2 \<Longrightarrow> channelRange (parseInt16_utf16 s)"
proof -
  assume s: "length s \<le> 2"
  define S1 where "S1 = dropWhile isWhiteSpace_unit s"
  define S2 where "S2 = (if take 1 S1 = units ''+'' \<or> take 1 S1 = units ''-'' then drop 1 S1 else S1)"
  define S3 where "S3 = (if take 2 S2 = units ''0x'' \<or> take 2 S2 = units ''0X'' then drop 2 S2 else S2)"
  define v where "v = foldl (\<lambda>a c. 16 * a + hexDigitValue_unit c) 0 (takeWhile isHexDigit_unit S3)"
  have l1: "length S1 \<le> 2" using s length_dropWhile_le[of isWhiteSpace_unit s] by (simp add: S1_def)
  have l2: "length S2 \<le> 2" using l1 by (auto simp: S2_def)
  have l3: "length S3 \<le> 2" using l2 by (auto simp: S3_def)
  have v2: "v < 256" using digits_value_bound[OF l3] by (simp add: v_def)
  have neg: "take 1 S1 = units ''-'' \<Longrightarrow> v < 16"
  proof -
    assume m: "take 1 S1 = units ''-''"
    then have "S1 \<noteq> []" by (auto simp: units_def)
    then have "length S2 \<le> 1" using l1 m by (auto simp: S2_def)
    then have "length S3 \<le> 1" by (auto simp: S3_def)
    from digits_value_bound[OF this] show "v < 16" by (simp add: v_def)
  qed
  have p: "parseInt16_utf16 s =
     (if takeWhile isHexDigit_unit S3 = [] then NaN
      else Num ((if take 1 S1 = units ''-'' then - 1 else 1) * int v))"
    by (simp add: parseInt16_utf16_def Let_def S1_def S2_def S3_def v_def)
  show ?thesis
    using v2 neg by (auto simp: p channelRange_def)
qed

lemma of_char_less_256: "(of_char c :: nat) < 256"
proof -
  have "(of_char c :: nat) mod 256 = of_char c" by simp
  then show ?thesis by (metis mod_less_divisor zero_less_numeral)
qed

lemma isHexDigit_unit_of_char: "isHexDigit_unit \<circ> of_char = isHexDigit"
  by (rule ext) (simp add: isHexDigit_unit_def isHexDigit_def Let_def)

lemma hexDigitValue_unit_of_char: "hexDigitValue_unit (of_char c) = hexDigitValue c"
  by (simp add: hexDigitValue_unit_def hexDigitValue_def Let_def)

lemma isWhiteSpace_unit_of_char: "isWhiteSpace_unit \<circ> of_char = isWhiteSpace"
proof (rule ext)
  fix c
  define n where "n = (of_char c :: nat)"
  have "n < 256" unfolding n_def by (rule of_char_less_256)
  then have "isWhiteSpace_unit n = ((9 \<le> n \<and> n \<le> 13) \<or> n = 32 \<or> n = 160)"
    unfolding isWhiteSpace_unit_def by arith
  then show "(isWhiteSpace_unit \<circ> of_char) c = isWhiteSpace c"
    by (simp add: isWhiteSpace_def Let_def n_def)
qed

lemma units_eq_iff: "units s = units t \<longleftrightarrow> s = t"
  by (simp add: units_def inj_of_char)

lemma units_take: "take n (units s) = units (take n s)"
  by (simp add: units_def take_map)
lemma units_drop: "drop n (units s) = units (drop n s)"
  by (simp add: units_def drop_map)

lemma parseInt16_units: "parseInt16_utf16 (units s) = parseInt16 s"
proof -
  have d: "dropWhile isWhiteSpace_unit (units s) = units (dropWhile isWhiteSpace s)"
    by (simp add: units_def dropWhile_map isWhiteSpace_unit_of_char)
  have t: "takeWhile isHexDigit_unit (units x) = units (takeWhile isHexDigit x)" for x
    by (simp add: units_def takeWhile_map isHexDigit_unit_of_char)
  have f: "foldl (\<lambda>a c. 16 * a + hexDigitValue_unit c) 0 (units x)
             = foldl (\<lambda>a c. 16 * a + hexDigitValue c) 0 x" for x
    by (simp add: units_def foldl_map hexDigitValue_unit_of_char)
  have e: "units x = [] \<longleftrightarrow> x = []" for x by (simp add: units_def)
  show ?thesis
    unfolding parseInt16_utf16_def parseInt16_def d Let_def
    by (simp add: units_take units_drop units_eq_iff t f e if_distrib[of units] cong: if_cong)
qed

lemma hexToRgb_units: "hexToRgb_utf16 (units s) = hexToRgb s"
  by (simp add: hexToRgb_utf16_def hexToRgb_def hexToRgb_channels_def slice_utf16_def slice_def
        units_take units_drop parseInt16_units)

lemma roundtrip_channels:
  assumes "valid_hex h"
  shows "(case hexToRgb_channels h of (r, g, b) \<Rightarrow> rgbToHex r g b) = toUpperCase h
       \<and> (case hexToRgb_channels h of (r, g, b) \<Rightarrow> isByte r \<and> isByte g \<and> isByte b)
       \<and> hexToRgb h = rgbText (hexToRgb_channels h)"
proof -
  from assms obtain a b c d e f g where h: "h = [a, b, c, d, e, f, g]"
    using length_7 unfolding valid_hex_def by blast
  from assms h have hd: "a = CHR ''#''"
    and ds: "isHexDigit b" "isHexDigit c" "isHexDigit d" "isHexDigit e" "isHexDigit f"
      "isHexDigit g"
    by (simp_all add: valid_hex_def)
  have ch: "hexToRgb_channels h = (parseInt16 [b, c], parseInt16 [d, e], parseInt16 [f, g])"
    by (simp add: h hexToRgb_channels_def slice_def)
  have up: "toUpperCase h
              = CHR ''#'' # [toUpperChar b, toUpperChar c] @ [toUpperChar d, toUpperChar e]
                  @ [toUpperChar f, toUpperChar g]"
    by (simp add: h hd toUpperCase_def toUpperChar_hash)
  have "(case hexToRgb_channels h of (r, g, b) \<Rightarrow> rgbToHex r g b) = toUpperCase h"
    unfolding ch up by (simp add: rgbToHex_def channel_roundtrip ds)
  moreover have "case hexToRgb_channels h of (r, g, b) \<Rightarrow> isByte r \<and> isByte g \<and> isByte b"
    unfolding ch by (simp add: channel_isByte ds)
  moreover have "hexToRgb h = rgbText (hexToRgb_channels h)"
    by (simp add: hexToRgb_def)
  ultimately show ?thesis by simp
qed

lemma digitChar_dec: "v < 10 \<Longrightarrow> isDecDigit (digitChar v) \<and> of_char (digitChar v) = 48 + v"
  by (simp add: isDecDigit_def digitChar_def of_char_of)

lemma digits_10_dec: "list_all isDecDigit (digits 10 n)"
proof (induction n rule: less_induct)
  case (less n)
  show ?case
  proof (cases "n < 10")
    case True
    then show ?thesis by (simp add: digits.simps[of 10 n] digitChar_dec)
  next
    case False
    then have "n div 10 < n" by simp
    from less.IH[OF this] False show ?thesis
      by (simp add: digits.simps[of 10 n] digitChar_dec)
  qed
qed

lemma decValue_digits: "decValue (digits 10 n) = n"
proof (induction n rule: less_induct)
  case (less n)
  show ?case
  proof (cases "n < 10")
    case True
    then show ?thesis by (simp add: digits.simps[of 10 n] digitChar_dec decValue_def)
  next
    case False
    then have "n div 10 < n" by simp
    from less.IH[OF this] False show ?thesis
      by (simp add: digits.simps[of 10 n] digitChar_dec decValue_def)
  qed
qed

lemma digits_10_inj: "digits 10 m = digits 10 n \<Longrightarrow> m = n"
  by (metis decValue_digits)

lemma comma_not_dec: "\<not> isDecDigit (CHR '','')"
  by (simp add: isDecDigit_def)

lemma split_at_comma:
  assumes "list_all isDecDigit xs" "list_all isDecDigit ys"
    and "xs @ '', '' @ r1 = ys @ '', '' @ r2"
  shows "xs = ys \<and> r1 = r2"
proof -
  have a: "takeWhile isDecDigit (xs @ '', '' @ r1) = xs"
    using assms(1) comma_not_dec by (simp add: takeWhile_append2 list_all_iff)
  have b: "takeWhile isDecDigit (ys @ '', '' @ r2) = ys"
    using assms(2) comma_not_dec by (simp add: takeWhile_append2 list_all_iff)
  from a b assms(3) have "xs = ys" by simp
  with assms(3) show ?thesis by simp
qed

lemma numberToString_nat: "numberToString radix (Num (int n)) = digits radix n"
  by (simp add: numberToString_def)

lemma byte_nat: "isByte x \<Longrightarrow> \<exists>n. x = Num (int n)"
  by (cases x) (auto simp: isByte_def intro: exI[of _ "nat _"])

lemma rgbText_inj:
  assumes "isByte r" "isByte g" "isByte b" "isByte r'" "isByte g'" "isByte b'"
    and "rgbText (r, g, b) = rgbText (r', g', b')"
  shows "r = r' \<and> g = g' \<and> b = b'"
proof -
  obtain n1 n2 n3 m1 m2 m3 where
    n: "r = Num (int n1)" "g = Num (int n2)" "b = Num (int n3)"
    and m: "r' = Num (int m1)" "g' = Num (int m2)" "b' = Num (int m3)"
    using assms(1-6) byte_nat by metis
  from assms(7) have e: "digits 10 n1 @ '', '' @ (digits 10 n2 @ '', '' @ digits 10 n3)
      = digits 10 m1 @ '', '' @ (digits 10 m2 @ '', '' @ digits 10 m3)"
    by (simp add: rgbText_def n m numberToString_nat)
  from split_at_comma[OF digits_10_dec digits_10_dec e]
  have 1: "digits 10 n1 = digits 10 m1"
    and e2: "digits 10 n2 @ '', '' @ digits 10 n3 = digits 10 m2 @ '', '' @ digits 10 m3"
    by simp_all
  from split_at_comma[OF digits_10_dec digits_10_dec e2]
  have 2: "digits 10 n2 = digits 10 m2" and 3: "digits 10 n3 = digits 10 m3"
    by simp_all
  show ?thesis
    using digits_10_inj[OF 1] digits_10_inj[OF 2] digits_10_inj[OF 3] by (simp add: n m)
qed

lemma hexToRgb_example: "hexToRgb ''#1a2B3c'' = ''26, 43, 60''"
  by code_simp

lemma rgbText_example: "rgbText (Num 26, Num 43, Num 60) = ''26, 43, 60''"
  by code_simp

text \<open>
  C3. For every valid seven-character string \<open>#RRGGBB\<close>, with digits of either case,
  the text that \<open>hexToRgb\<close> returns is the text \<open>r, g, b\<close> of three bytes, and
  \<open>rgbToHex\<close> formats the three channel values of that text back to the upper-case
  form of the string: hex to RGB to hex is the identity on the colour.
\<close>

theorem hex_rgb_hex_roundtrip:
  assumes "valid_hex h"
  shows "(\<exists>r g b. isByte r \<and> isByte g \<and> isByte b \<and> hexToRgb h = rgbText (r, g, b)
                  \<and> rgbToHex r g b = toUpperCase h)
       \<and> (\<forall>r g b. isByte r \<and> isByte g \<and> isByte b \<and> hexToRgb h = rgbText (r, g, b)
                  \<longrightarrow> rgbToHex r g b = toUpperCase h)"
proof -
  obtain r' g' b' where c: "hexToRgb_channels h = (r', g', b')"
    by (cases "hexToRgb_channels h") auto
  from roundtrip_channels[OF assms] c
  have rt: "rgbToHex r' g' b' = toUpperCase h"
    and bs: "isByte r'" "isByte g'" "isByte b'"
    and t: "hexToRgb h = rgbText (r', g', b')"
    by simp_all
  have "rgbToHex r g b = toUpperCase h"
    if "isByte r \<and> isByte g \<and> isByte b \<and> hexToRgb h = rgbText (r, g, b)" for r g b
  proof -
    from that t have "rgbText (r, g, b) = rgbText (r', g', b')" by simp
    with that bs have "r = r' \<and> g = g' \<and> b = b'" by (intro rgbText_inj) simp_all
    with rt show ?thesis by simp
  qed
  with rt bs t show ?thesis by blast
qed

theorem hex_rgb_hex_roundtrip_witness:
  "valid_hex ''#1a2B3c''
   \<and> isByte (Num 26) \<and> isByte (Num 43) \<and> isByte (Num 60)
   \<and> hexToRgb ''#1a2B3c'' = rgbText (Num 26, Num 43, Num 60)
   \<and> rgbToHex (Num 26) (Num 43) (Num 60) = ''#1A2B3C''"
proof -
  have v: "valid_hex ''#1a2B3c''"
    by (simp add: valid_hex_def isHexDigit_def)
  have b: "isByte (Num 26) \<and> isByte (Num 43) \<and> isByte (Num 60)
           \<and> hexToRgb ''#1a2B3c'' = rgbText (Num 26, Num 43, Num 60)"
    by (simp add: isByte_def hexToRgb_example rgbText_example)
  from hex_rgb_hex_roundtrip[OF v] b
  have "rgbToHex (Num 26) (Num 43) (Num 60) = toUpperCase ''#1a2B3c''"
    by blast
  with v b show ?thesis
    by (simp add: toUpperCase_example)
qed

lemma hexToRgb_signed: "hexToRgb ''#-fff0x'' = ''-15, 255, NaN''"
  by code_simp

text \<open>
  C9, as the code has it. \<open>hexToRgb\<close> never fails: for every input string, of any
  code units, it returns a text \<open>r, g, b\<close> in which each of the three channels is
  \<open>NaN\<close> or an integer from -15 to 255. A string that is not a valid \<open>#RRGGBB\<close>
  gets such a text too, not \<open>InvalidFormat\<close>: \<open>FF0000\<close> gives \<open>240, 0, 0\<close> and
  \<open>#-fff0x\<close> gives \<open>-15, 255, NaN\<close>. On strings of characters the function on
  code units is \<open>hexToRgb\<close> as modelled for the other properties.
\<close>

theorem hexToRgb_total:
  "(\<exists>r g b. hexToRgb_utf16_result u = Inr (rgbText (r, g, b))
            \<and> channelRange r \<and> channelRange g \<and> channelRange b)
   \<and> hexToRgb_result s = hexToRgb_utf16_result (units s)
   \<and> hexToRgb_result ''#-fff0x'' = Inr ''-15, 255, NaN''"
proof -
  have "channelRange (parseInt16_utf16 (slice_utf16 1 3 u))"
    "channelRange (parseInt16_utf16 (slice_utf16 3 5 u))"
    "channelRange (parseInt16_utf16 (slice_utf16 5 7 u))"
    by (simp_all add: parseInt16_utf16_range slice_utf16_def)
  then have "\<exists>r g b. hexToRgb_utf16_result u = Inr (rgbText (r, g, b))
            \<and> channelRange r \<and> channelRange g \<and> channelRange b"
    unfolding hexToRgb_utf16_result_def hexToRgb_utf16_def by blast
  then show ?thesis
    by (simp add: hexToRgb_result_def hexToRgb_utf16_result_def hexToRgb_units
          hexToRgb_signed)
qed

theorem hexToRgb_malformed_counterexample:
  "\<not> valid_hex ''FF0000'' \<and> hexToRgb_result ''FF0000'' \<noteq> Inl InvalidFormat
   \<and> hexToRgb_result ''FF0000'' = Inr ''240, 0, 0''"
  by (simp add: valid_hex_def hexToRgb_result_def hexToRgb_no_hash)

section \<open>WCAG levels\<close>

lemma levels_after_update:
  "level143Regular (updateFromTauriStore_ui sr s ui) = (4.5 \<le> contrast_ratio_rounded s)"
  "level143Large (updateFromTauriStore_ui sr s ui) = (3 \<le> contrast_ratio_rounded s)"
  "level146Regular (updateFromTauriStore_ui sr s ui) = (7 \<le> contrast_ratio_rounded s)"
  "level146Large (updateFromTauriStore_ui sr s ui) = (4.5 \<le> contrast_ratio_rounded s)"
  "level1411 (updateFromTauriStore_ui sr s ui) = (3 \<le> contrast_ratio_rounded s)"
  by (auto simp: updateFromTauriStore_ui_def Let_def)


text \<open>
  C1. For every backend store payload, the five WCAG levels that
  \<open>updateFromTauriStore\<close> leaves in the UIStore after its staged tests (all five set to
  true, then cleared by \<open>ratio < 7\<close>, \<open>ratio < 4.5\<close> and \<open>ratio < 3\<close>) are the levels
  computed directly as \<open>ratio \<ge> threshold\<close>.
\<close>

theorem wcag_staged_eq_direct:
  "wcagLevels (updateFromTauriStore_ui show_ratio store this)
     = wcagFlags_direct (contrast_ratio_rounded store)"
  by (simp add: wcagLevels_def wcagFlags_direct_def levels_after_update)



text \<open>
  C7. The levels are monotonic in the ratio: when the ratio of one payload is at most
  the ratio of another, every level that is true after the first is true after the
  second, whatever the stores were before. At ratio 21 all five levels are true, at
  ratio 1 all five are false.
\<close>

theorem wcag_monotonic:
  assumes "contrast_ratio_rounded s1 \<le> contrast_ratio_rounded s2"
  shows "(level143Regular (updateFromTauriStore_ui show_ratio s1 u1)
            \<longrightarrow> level143Regular (updateFromTauriStore_ui show_ratio s2 u2))
       \<and> (level143Large (updateFromTauriStore_ui show_ratio s1 u1)
            \<longrightarrow> level143Large (updateFromTauriStore_ui show_ratio s2 u2))
       \<and> (level146Regular (updateFromTauriStore_ui show_ratio s1 u1)
            \<longrightarrow> level146Regular (updateFromTauriStore_ui show_ratio s2 u2))
       \<and> (level146Large (updateFromTauriStore_ui show_ratio s1 u1)
            \<longrightarrow> level146Large (updateFromTauriStore_ui show_ratio s2 u2))
       \<and> (level1411 (updateFromTauriStore_ui show_ratio s1 u1)
            \<longrightarrow> level1411 (updateFromTauriStore_ui show_ratio s2 u2))
       \<and> wcagLevels (updateFromTauriStore_ui show_ratio (s1\<lparr>contrast_ratio_rounded := 21\<rparr>) u1)
           = (True, True, True, True, True)
       \<and> wcagLevels (updateFromTauriStore_ui show_ratio (s1\<lparr>contrast_ratio_rounded := 1\<rparr>) u1)
           = (False, False, False, False, False)"
  using assms by (simp add: levels_after_update wcagLevels_def)

theorem wcag_monotonic_witness:
  "contrast_ratio_rounded (payload_example\<lparr>contrast_ratio_rounded := 3\<rparr>)
     \<le> contrast_ratio_rounded (payload_example\<lparr>contrast_ratio_rounded := 5\<rparr>)
   \<and> level143Large
        (updateFromTauriStore_ui (\<lambda>r. ''3'') (payload_example\<lparr>contrast_ratio_rounded := 3\<rparr>) UIStore_init)
   \<and> level143Large
        (updateFromTauriStore_ui (\<lambda>r. ''3'') (payload_example\<lparr>contrast_ratio_rounded := 5\<rparr>) UIStore_init)"
  using wcag_monotonic [of "payload_example\<lparr>contrast_ratio_rounded := 3\<rparr>"
                           "payload_example\<lparr>contrast_ratio_rounded := 5\<rparr>"
                           "\<lambda>r. ''3''" UIStore_init UIStore_init]
  by (simp add: levels_after_update)

section \<open>Updates from the backend\<close>

text \<open>
  C5. \<open>updateFromTauriStore\<close> is idempotent: for every payload and every store, a
  second application with the same payload gives the store that the first one gave. This
  holds for the ColorPickerStore with hexadecimal payloads, for the UIStore, and for the
  ColorPickerStore with RGB payloads.
\<close>

theorem update_idempotent:
  "updateFromTauriStore store (updateFromTauriStore store this) = updateFromTauriStore store this
   \<and> updateFromTauriStore_ui show_ratio payload (updateFromTauriStore_ui show_ratio payload ui)
       = updateFromTauriStore_ui show_ratio payload ui
   \<and> updateFromTauriStore_rgb store' (updateFromTauriStore_rgb store' this)
       = updateFromTauriStore_rgb store' this"
  by (simp add: updateFromTauriStore_def updateFromTauriStore_ui_def
        updateFromTauriStore_rgb_def Let_def split: prod.splits)

lemma hexToRgb_white: "hexToRgb ''#FFFFFF'' = ''255, 255, 255''"
  by code_simp

text \<open>
  C4. A push in which a colour role is absent (\<open>null\<close>; the empty string is treated
  alike) leaves the hexadecimal and RGB texts displayed for that role as they were.
  Applied to the initial store, the push with foreground \<open>#FFFFFF\<close> and background
  \<open>null\<close> sets \<open>resultVisible\<close>, \<open>foreground\<close> and \<open>foregroundRgb\<close> and changes
  nothing else.
\<close>

theorem partial_push_keeps_absent_role:
  "(\<not> truthy (ColorStore.foreground store) \<longrightarrow>
      ColorPickerStore.foreground (updateFromTauriStore store this) = ColorPickerStore.foreground this
      \<and> ColorPickerStore.foregroundRgb (updateFromTauriStore store this)
          = ColorPickerStore.foregroundRgb this)
   \<and> (\<not> truthy (ColorStore.background store) \<longrightarrow>
      ColorPickerStore.background (updateFromTauriStore store this) = ColorPickerStore.background this
      \<and> ColorPickerStore.backgroundRgb (updateFromTauriStore store this)
          = ColorPickerStore.backgroundRgb this)
   \<and> updateFromTauriStore
        \<lparr> ColorStore.foreground = Some ''#FFFFFF'', ColorStore.background = None,
          ColorStore.continue_mode = False \<rparr> colorPickerStore
       = colorPickerStore \<lparr> ColorPickerStore.resultVisible := True,
                            ColorPickerStore.foreground := ''#FFFFFF'',
                            ColorPickerStore.foregroundRgb := ''255, 255, 255'' \<rparr>"
  by (simp add: updateFromTauriStore_def Let_def truthy_def hexToRgb_white colorPickerStore_def)

theorem partial_push_keeps_absent_role_witness:
  "\<not> truthy (ColorStore.background
        \<lparr> ColorStore.foreground = Some ''#FFFFFF'', ColorStore.background = None,
          ColorStore.continue_mode = False \<rparr>)
   \<and> ColorPickerStore.background
        (updateFromTauriStore
           \<lparr> ColorStore.foreground = Some ''#FFFFFF'', ColorStore.background = None,
             ColorStore.continue_mode = False \<rparr>
           (colorPickerStore \<lparr> ColorPickerStore.background := ''#000000'',
                                ColorPickerStore.backgroundRgb := ''0, 0, 0'' \<rparr>)) = ''#000000''
   \<and> \<not> truthy (ColorStore.foreground
        \<lparr> ColorStore.foreground = None, ColorStore.background = Some ''#000000'',
          ColorStore.continue_mode = False \<rparr>)
   \<and> ColorPickerStore.foregroundRgb
        (updateFromTauriStore
           \<lparr> ColorStore.foreground = None, ColorStore.background = Some ''#000000'',
             ColorStore.continue_mode = False \<rparr>
           (colorPickerStore \<lparr> ColorPickerStore.foreground := ''#FFFFFF'',
                                ColorPickerStore.foregroundRgb := ''255, 255, 255'' \<rparr>))
       = ''255, 255, 255''"
  using partial_push_keeps_absent_role
          [of "\<lparr> ColorStore.foreground = Some ''#FFFFFF'', ColorStore.background = None,
                 ColorStore.continue_mode = False \<rparr>"
              "colorPickerStore \<lparr> ColorPickerStore.background := ''#000000'',
                                   ColorPickerStore.backgroundRgb := ''0, 0, 0'' \<rparr>"]
        partial_push_keeps_absent_role
          [of "\<lparr> ColorStore.foreground = None, ColorStore.background = Some ''#000000'',
                 ColorStore.continue_mode = False \<rparr>"
              "colorPickerStore \<lparr> ColorPickerStore.foreground := ''#FFFFFF'',
                                   ColorPickerStore.foregroundRgb := ''255, 255, 255'' \<rparr>"]
  by (simp add: truthy_def colorPickerStore_def)


section \<open>Picking a colour\<close>

text \<open>
  C6. When the backend pick resolves without a sample for the requested role (the user
  cancelled the native picker), the value displayed for that role and \<open>resultVisible\<close>
  are after the call what they were before it, and \<open>isPicking\<close> is false: in the
  colorPicker store of the oldest main.ts, which reads the result (a \<open>null\<close> result
  or a \<open>null\<close> foreground), and in the ColorPickerStore of store.ts.
\<close>

theorem cancelled_pick_is_noop:
  "(sample_main color = None \<longrightarrow>
      displayed_main (pickColor_main (Resolved color) m) = displayed_main m
      \<and> ColorPickerStore_main.resultVisible (pickColor_main (Resolved color) m)
          = ColorPickerStore_main.resultVisible m
      \<and> \<not> ColorPickerStore_main.isPicking (pickColor_main (Resolved color) m))
   \<and> (sample fg c = None \<longrightarrow>
      displayed fg (pickColor fg (Resolved c) this) = displayed fg this
      \<and> ColorPickerStore.resultVisible (pickColor fg (Resolved c) this)
          = ColorPickerStore.resultVisible this
      \<and> \<not> ColorPickerStore.isPicking (pickColor fg (Resolved c) this))"
  by (simp add: pickColor_main_def pickColor_main_settle_def pickColor_main_enter_def
        sample_main_def displayed_main_def pickColor_def pickColor_settle_def
        pickColor_enter_def displayed_def Let_def split: option.splits)

theorem cancelled_pick_is_noop_witness:
  "sample_main (Some \<lparr> ColorResult_main.foreground = None \<rparr>) = None
   \<and> sample True \<lparr> ColorResult.foreground = None,
                    ColorResult.background = Some (Num 0, Num 0, Num 0),
                    ColorResult.continue_mode = False \<rparr> = None
   \<and> displayed_main
        (pickColor_main (Resolved (Some \<lparr> ColorResult_main.foreground = None \<rparr>))
           (colorPicker \<lparr> ColorPickerStore_main.resultVisible := True,
                          ColorPickerStore_main.hex := ''#FFFFFF'',
                          ColorPickerStore_main.rgb := ''255, 255, 255'',
                          ColorPickerStore_main.backgroundColor := ''#FFFFFF'' \<rparr>))
       = (''#FFFFFF'', ''255, 255, 255'', ''#FFFFFF'')
   \<and> displayed True
        (pickColor True
           (Resolved \<lparr> ColorResult.foreground = None,
                       ColorResult.background = Some (Num 0, Num 0, Num 0),
                       ColorResult.continue_mode = False \<rparr>)
           (colorPickerStore \<lparr> ColorPickerStore.resultVisible := True,
                               ColorPickerStore.foreground := ''#FFFFFF'',
                               ColorPickerStore.foregroundRgb := ''255, 255, 255'' \<rparr>))
       = (''#FFFFFF'', ''255, 255, 255'')"
  using cancelled_pick_is_noop
          [of "Some \<lparr> ColorResult_main.foreground = None \<rparr>"
              "colorPicker \<lparr> ColorPickerStore_main.resultVisible := True,
                             ColorPickerStore_main.hex := ''#FFFFFF'',
                             ColorPickerStore_main.rgb := ''255, 255, 255'',
                             ColorPickerStore_main.backgroundColor := ''#FFFFFF'' \<rparr>"
              True
              "\<lparr> ColorResult.foreground = None,
                 ColorResult.background = Some (Num 0, Num 0, Num 0),
                 ColorResult.continue_mode = False \<rparr>"
              "colorPickerStore \<lparr> ColorPickerStore.resultVisible := True,
                                  ColorPickerStore.foreground := ''#FFFFFF'',
                                  ColorPickerStore.foregroundRgb := ''255, 255, 255'' \<rparr>"]
  by (simp add: sample_main_def sample_def displayed_main_def displayed_def colorPicker_def
        colorPickerStore_def)

lemma step_resultVisible:
  assumes "\<And>p t. ColorPickerStore.resultVisible t \<Longrightarrow> ColorPickerStore.resultVisible (upd p t)"
    and "ColorPickerStore.resultVisible t"
  shows "ColorPickerStore.resultVisible (step upd e t)"
  using assms
  by (cases e)
     (auto simp: pickColor_enter_def pickColor_settle_def copyHex_settle_def
        copyHex_timeout_def Let_def split: settled.splits)

lemma run_resultVisible:
  assumes "\<And>p t. ColorPickerStore.resultVisible t \<Longrightarrow> ColorPickerStore.resultVisible (upd p t)"
    and "ColorPickerStore.resultVisible t"
  shows "ColorPickerStore.resultVisible (run upd evs t)"
  using assms(2) unfolding run_def
proof (induction evs arbitrary: t)
  case Nil
  then show ?case by simp
next
  case (Cons e evs)
  have "ColorPickerStore.resultVisible (step upd e t)"
    using Cons.prems assms(1) by (auto intro: step_resultVisible)
  then show ?case using Cons.IH by simp
qed

lemma update_resultVisible:
  "ColorPickerStore.resultVisible t \<Longrightarrow> ColorPickerStore.resultVisible (updateFromTauriStore p t)"
  by (simp add: updateFromTauriStore_def Let_def)

lemma update_rgb_resultVisible:
  "ColorPickerStore.resultVisible (updateFromTauriStore_rgb p t)"
  by (simp add: updateFromTauriStore_rgb_def split: prod.splits)

text \<open>
  C8. \<open>resultVisible\<close> stays true: from a store in which it is true, every sequence
  of parts of \<open>pickColor\<close> and \<open>copyHex\<close> and of pushes through
  \<open>updateFromTauriStore\<close> ends in a store in which it is true, with hexadecimal
  payloads and with RGB payloads.
\<close>

theorem resultVisible_stays_true:
  assumes "ColorPickerStore.resultVisible this"
  shows "ColorPickerStore.resultVisible (run updateFromTauriStore evs this)
       \<and> ColorPickerStore.resultVisible (run updateFromTauriStore_rgb evs' this)"
  using assms
  by (simp add: run_resultVisible update_resultVisible update_rgb_resultVisible)

theorem resultVisible_stays_true_witness:
  "ColorPickerStore.resultVisible
     (run updateFromTauriStore
        [StoreUpdated \<lparr> ColorStore.foreground = Some ''#FFFFFF'', ColorStore.background = None,
                        ColorStore.continue_mode = False \<rparr>] colorPickerStore)
   \<and> ColorPickerStore.resultVisible
       (run updateFromTauriStore
          [PickColorCalled False, PickColorSettled Rejected, CopyHexSettled (Resolved ()),
           CopyHexTimeout,
           StoreUpdated \<lparr> ColorStore.foreground = None, ColorStore.background = None,
                          ColorStore.continue_mode = False \<rparr>]
          (run updateFromTauriStore
             [StoreUpdated \<lparr> ColorStore.foreground = Some ''#FFFFFF'',
                             ColorStore.background = None,
                             ColorStore.continue_mode = False \<rparr>] colorPickerStore))"
  using resultVisible_stays_true
          [of "run updateFromTauriStore
                 [StoreUpdated \<lparr> ColorStore.foreground = Some ''#FFFFFF'',
                                 ColorStore.background = None,
                                 ColorStore.continue_mode = False \<rparr>] colorPickerStore"
              "[PickColorCalled False, PickColorSettled Rejected, CopyHexSettled (Resolved ()),
                CopyHexTimeout,
                StoreUpdated \<lparr> ColorStore.foreground = None, ColorStore.background = None,
                               ColorStore.continue_mode = False \<rparr>]"
              "[]"]
  by (simp add: run_def updateFromTauriStore_def truthy_def Let_def)

text \<open>
  C10. In the stores that are fed by the \<open>store-updated\<close> event, a call of
  \<open>pickColor\<close> writes \<open>isPicking\<close> only, whether \<open>invoke\<close> resolves or rejects:
  true on entry, false on exit, every other field of the store as before (colours,
  \<open>resultVisible\<close>, \<open>copiedVisible\<close>, the contrast ratio, the WCAG levels). The
  parts of \<open>copyHex\<close> leave the displayed colours alone as well, so that colours
  enter the store through \<open>updateFromTauriStore\<close> only.
\<close>

theorem pickColor_writes_isPicking_only:
  "pickColor fg r this = this \<lparr> ColorPickerStore.isPicking := False \<rparr>
   \<and> ColorPickerStore.isPicking (pickColor_enter this)
   \<and> (pickColor_enter this) \<lparr> ColorPickerStore.isPicking := False \<rparr>
       = this \<lparr> ColorPickerStore.isPicking := False \<rparr>
   \<and> pickColor_settle r this = this \<lparr> ColorPickerStore.isPicking := False \<rparr>
   \<and> displayed role (copyHex_settle w this) = displayed role this
   \<and> displayed role (copyHex_timeout this) = displayed role this
   \<and> pickColor_ui fg r' ui = ui \<lparr> UIStore.isPicking := False \<rparr>
   \<and> UIStore.isPicking (pickColor_ui_enter ui)
   \<and> (pickColor_ui_enter ui) \<lparr> UIStore.isPicking := False \<rparr>
       = ui \<lparr> UIStore.isPicking := False \<rparr>
   \<and> pickColor_ui_settle r' ui = ui \<lparr> UIStore.isPicking := False \<rparr>"
  by (simp add: pickColor_def pickColor_enter_def pickColor_settle_def pickColor_ui_def
        pickColor_ui_enter_def pickColor_ui_settle_def copyHex_settle_def copyHex_timeout_def
        displayed_def Let_def split: settled.splits)


end
